theory Spec2Isabelle
  imports Main
begin

section \<open>Deploy-time values\<close>

text \<open>
  The stack of \<^verbatim>\<open>lib/amp-and-grafana-stack.ts\<close> is built from strings that are either
  known when the program runs (\<open>Str\<close>) or stand for an attribute of a resource that the
  provisioning engine fills in later (\<open>Ref\<close>, \<open>GetAtt\<close>).  The intrinsic operations
  \<^verbatim>\<open>cdk.Fn.split\<close> and \<^verbatim>\<open>cdk.Fn.select\<close> compute at once on a known string
  and are recorded symbolically (\<open>FnSplit\<close>, \<open>FnSelect\<close>, \<open>FnJoin\<close>) on an unknown one.
\<close>

datatype tok =
    Str string
  | Ref string
  | GetAtt string string
  | FnSelect nat toks
  | FnJoin string "tok list"
and toks =
    Elems "tok list"
  | FnSplit char tok

fun isUnresolved :: "tok \<Rightarrow> bool" where
  "isUnresolved (Str s) = False"
| "isUnresolved t = True"

text \<open>The logical ids of the resources a value mentions.\<close>

fun refs :: "tok \<Rightarrow> string list" and refss :: "toks \<Rightarrow> string list" where
  "refs (Str s) = []"
| "refs (Ref l) = [l]"
| "refs (GetAtt l a) = [l]"
| "refs (FnSelect i ts) = refss ts"
| "refs (FnJoin d xs) = concat (map refs xs)"
| "refss (Elems xs) = concat (map refs xs)"
| "refss (FnSplit d t) = refs t"

text \<open>
  \<^verbatim>\<open>String.prototype.split\<close> with a one-character separator: the pieces between the
  separators, empty pieces kept; the empty string splits into one empty piece.
\<close>

fun js_split :: "char \<Rightarrow> string \<Rightarrow> string list" where
  "js_split d [] = [[]]"
| "js_split d (c # cs) =
     (if c = d then [] # js_split d cs
      else (case js_split d cs of [] \<Rightarrow> [[c]] | s # ss \<Rightarrow> (c # s) # ss))"

text \<open>\<^verbatim>\<open>Fn.split(delimiter, source)\<close>: a known source is split at once.\<close>

definition Fn_split :: "char \<Rightarrow> tok \<Rightarrow> toks" where
  "Fn_split delimiter source =
     (case source of
        Str s \<Rightarrow> Elems (map Str (js_split delimiter s))
      | _ \<Rightarrow> FnSplit delimiter source)"

text \<open>
  \<^verbatim>\<open>Fn.select(index, array)\<close>: on a known array this is \<^verbatim>\<open>array[index]\<close>, which
  in JavaScript is \<^verbatim>\<open>undefined\<close> (here \<open>None\<close>) when the index is out of range, and
  not an exception.
\<close>

definition Fn_select :: "nat \<Rightarrow> toks \<Rightarrow> tok option" where
  "Fn_select index array =
     (case array of
        Elems xs \<Rightarrow>
          (if \<not> list_ex isUnresolved xs
           then (if index < length xs then Some (xs ! index) else None)
           else Some (FnSelect index array))
      | FnSplit d t \<Rightarrow> Some (FnSelect index array))"

text \<open>
  A template literal \<^verbatim>\<open>`${a}/${b}`\<close>: \<^verbatim>\<open>undefined\<close> is rendered as the text
  \<^verbatim>\<open>undefined\<close>; known parts are concatenated, and a literal with an unknown part is
  the join of its parts.
\<close>

definition interpolate :: "tok option \<Rightarrow> tok" where
  "interpolate v = (case v of None \<Rightarrow> Str ''undefined'' | Some t \<Rightarrow> t)"

fun strOf :: "tok \<Rightarrow> string" where
  "strOf (Str s) = s"
| "strOf t = []"

definition template_literal :: "tok list \<Rightarrow> tok" where
  "template_literal parts =
     (if list_ex isUnresolved parts then FnJoin [] parts
      else Str (concat (map strOf parts)))"

subsection \<open>The role-ARN transformation of \<^verbatim>\<open>createPrometheusScraperRoleBinding\<close>\<close>

definition modifiedArn :: "tok \<Rightarrow> tok" where
  "modifiedArn attrRoleArn =
     (let splitArn = Fn_split CHR ''/'' attrRoleArn;
          suffix = Fn_select 3 splitArn;
          prefix = Fn_select 0 splitArn
      in template_literal [interpolate prefix, Str ''/'', interpolate suffix])"

section \<open>The constructs the stack is built from\<close>

text \<open>
  Every declaration made on the stack is logged in order, with the logical ids its
  properties mention; the engine takes these references as the dependency edges.
\<close>

record Decl =
  declId :: string
  declRefs :: "string list"

subsection \<open>Network\<close>

datatype SubnetType = PUBLIC | PRIVATE_WITH_EGRESS | PRIVATE_ISOLATED

record Subnet =
  subnetId :: tok
  subnetType :: SubnetType
  availabilityZone :: string

record SubnetSelection =
  subnetType_sel :: SubnetType

record SelectedSubnets =
  subnets_sel :: "Subnet list"

record VpcProps =
  maxAzs :: nat
  enableDnsHostnames :: bool
  enableDnsSupport :: bool

record Vpc =
  vpcId :: string
  vpcProps :: VpcProps
  subnets :: "Subnet list"

fun decimal :: "nat \<Rightarrow> string" where
  "decimal n =
     (if n < 10 then [''0123456789'' ! n]
      else decimal (n div 10) @ [''0123456789'' ! (n mod 10)])"

declare decimal.simps [simp del]

definition tierSubnets :: "string \<Rightarrow> string \<Rightarrow> SubnetType \<Rightarrow> string list \<Rightarrow> Subnet list" where
  "tierSubnets vid tier ty zones =
     map (\<lambda>(i, z). \<lparr>subnetId = Ref (vid @ tier @ ''Subnet'' @ decimal i @ ''Subnet''),
                     subnetType = ty, availabilityZone = z\<rparr>)
         (enumerate 1 zones)"

text \<open>
  Modelled from the spec: the network construct \<^verbatim>\<open>ec2.Vpc\<close> belongs to the provider
  library and is not under src.  By sections 2 and 4.1 of the spec it spans at most
  \<open>maxAzs\<close> of the environment's availability zones and has a public and a
  private-with-egress subnet in each of them.
\<close>

definition new_Vpc :: "string list \<Rightarrow> string \<Rightarrow> VpcProps \<Rightarrow> Decl list \<Rightarrow> Vpc \<times> Decl list" where
  "new_Vpc azs vid p log =
     (let zones = take (maxAzs p) azs;
          v = \<lparr>vpcId = vid, vpcProps = p,
               subnets = tierSubnets vid ''Public'' PUBLIC zones
                       @ tierSubnets vid ''Private'' PRIVATE_WITH_EGRESS zones\<rparr>
      in (v, log @ \<lparr>declId = vid, declRefs = []\<rparr>
                 # map (\<lambda>l. \<lparr>declId = l, declRefs = [vid]\<rparr>)
                       (concat (map (\<lambda>s. refs (subnetId s)) (subnets v)))))"

text \<open>
  Modelled from the spec: \<^verbatim>\<open>Vpc.selectSubnets\<close> is not under src.  By section 4.5 of
  the spec the selection is resolved by filtering the network's subnets by subnet type.
\<close>

definition selectSubnets :: "Vpc \<Rightarrow> SubnetSelection \<Rightarrow> SelectedSubnets" where
  "selectSubnets v sel =
     \<lparr>subnets_sel = filter (\<lambda>s. subnetType s = subnetType_sel sel) (subnets v)\<rparr>"

subsection \<open>Identity\<close>

datatype Principal = ServicePrincipal string | AccountPrincipal string | AnyPrincipal

datatype ManagedPolicy = AwsManagedPolicy string

record RoleProps =
  assumedBy :: Principal
  managedPolicies :: "ManagedPolicy list"

record Role =
  roleArn :: tok
  roleProps :: "RoleProps option"

text \<open>\<^verbatim>\<open>Role.fromRoleArn\<close> imports a role: a handle on the ARN, no resource of the stack.\<close>

definition fromRoleArn :: "string \<Rightarrow> tok \<Rightarrow> Role" where
  "fromRoleArn rid arn = \<lparr>roleArn = arn, roleProps = None\<rparr>"

definition new_Role :: "string \<Rightarrow> RoleProps \<Rightarrow> Decl list \<Rightarrow> Role \<times> Decl list" where
  "new_Role rid p log =
     (\<lparr>roleArn = GetAtt rid ''Arn'', roleProps = Some p\<rparr>,
      log @ [\<lparr>declId = rid, declRefs = []\<rparr>])"

definition fromAwsManagedPolicyName :: "string \<Rightarrow> ManagedPolicy" where
  "fromAwsManagedPolicyName n = AwsManagedPolicy n"

text \<open>
  The trust policy of a role: who may assume it.  A role created with \<open>assumedBy\<close> has
  one statement, allowing that principal to assume the role.
\<close>

datatype Effect = Allow | Deny

record Statement =
  effect :: Effect
  actions :: "string list"
  principals :: "Principal list"

definition assumeRolePolicy :: "Role \<Rightarrow> Statement list" where
  "assumeRolePolicy r =
     (case roleProps r of
        None \<Rightarrow> []
      | Some p \<Rightarrow> [\<lparr>effect = Allow, actions = [''sts:AssumeRole''],
                      principals = [assumedBy p]\<rparr>])"

subsection \<open>Manifests\<close>

text \<open>
  An object literal keeps its keys in order; \<open>jset\<close> assigns a key as JavaScript does:
  in place when the key is there, at the end when it is not.
\<close>

datatype json = JStr string | JArr "json list" | JObj "(string \<times> json) list"

fun jget :: "string \<Rightarrow> json \<Rightarrow> json option" where
  "jget k (JObj kvs) = map_of kvs k"
| "jget k j = None"

fun assign :: "string \<Rightarrow> json \<Rightarrow> (string \<times> json) list \<Rightarrow> (string \<times> json) list" where
  "assign k v [] = [(k, v)]"
| "assign k v (p # ps) = (if fst p = k then (k, v) # ps else p # assign k v ps)"

fun jset :: "string \<Rightarrow> json \<Rightarrow> json \<Rightarrow> json" where
  "jset k v (JObj kvs) = JObj (assign k v kvs)"
| "jset k v j = j"

fun jelems :: "json option \<Rightarrow> json list" where
  "jelems (Some (JArr xs)) = xs"
| "jelems j = []"

fun jstrings :: "json option \<Rightarrow> string list" where
  "jstrings (Some (JArr xs)) = concat (map (\<lambda>x. case x of JStr s \<Rightarrow> [s] | _ \<Rightarrow> []) xs)"
| "jstrings j = []"

fun jfields :: "json option \<Rightarrow> (string \<times> json) list" where
  "jfields (Some (JObj kvs)) = kvs"
| "jfields j = []"

text \<open>
  The provider library is not under src.  A manifest added to a cluster whose \<open>prune\<close>
  option is on (the default; the source does not pass it) is applied with one more
  label in its metadata, put in front of the labels it has, provided the metadata names
  the object.  The label ends in the address of the manifest construct, for which the
  construct id stands here.
\<close>

definition injectPruneLabel :: "string \<Rightarrow> json \<Rightarrow> json" where
  "injectPruneLabel mid resource =
     (case jget ''metadata'' resource of
        None \<Rightarrow> resource
      | Some metadata \<Rightarrow>
          (if jget ''name'' metadata = None then resource
           else jset ''metadata''
                  (jset ''labels''
                     (JObj ((''aws.cdk.eks/prune-'' @ mid, JStr [])
                            # jfields (jget ''labels'' metadata)))
                     metadata)
                  resource))"

subsection \<open>Cluster\<close>

datatype KubernetesVersion = V1_29 | V1_30 | V1_31

datatype ClusterLoggingTypes = API | AUDIT | AUTHENTICATOR | CONTROLLER_MANAGER | SCHEDULER

datatype EndpointAccess = PUBLIC_ONLY | PRIVATE_ONLY | PUBLIC_AND_PRIVATE

datatype InstanceClass = T3 | M5 | C5

datatype InstanceSize = MEDIUM | LARGE | XLARGE

datatype InstanceType = InstanceType_of InstanceClass InstanceSize

record NodegroupOptions =
  instanceTypes :: "InstanceType list"
  desiredSize :: "nat option"
  minSize :: "nat option"
  maxSize :: "nat option"

text \<open>
  The desired size a node group is created with: the one given, else the minimum size
  given, else 2.
\<close>

definition nodegroupDesiredSize :: "NodegroupOptions \<Rightarrow> nat" where
  "nodegroupDesiredSize opts =
     (case desiredSize opts of
        Some n \<Rightarrow> n
      | None \<Rightarrow> (case minSize opts of Some n \<Rightarrow> n | None \<Rightarrow> 2))"

record AwsAuthMapping =
  username :: string
  groups :: "string list"

text \<open>
  \<open>defaultCapacity\<close> and \<open>defaultCapacityInstance\<close> are props that the source does not
  pass; a prop that is not passed is \<open>None\<close>.
\<close>

record ClusterProps =
  cluster_vpc :: Vpc
  kubectlLayer :: string
  version :: KubernetesVersion
  vpcSubnets :: "SubnetSelection list"
  clusterLogging :: "ClusterLoggingTypes list"
  endpointAccess :: EndpointAccess
  defaultCapacity :: "nat option"
  defaultCapacityInstance :: "InstanceType option"

record Cluster =
  clusterId :: string
  clusterProps :: ClusterProps
  nodegroups :: "(string \<times> NodegroupOptions) list"
  manifests :: "(string \<times> json) list"
  awsAuth :: "(Role \<times> AwsAuthMapping) list"

definition new_KubectlV30Layer :: "string \<Rightarrow> Decl list \<Rightarrow> string \<times> Decl list" where
  "new_KubectlV30Layer lid log = (lid, log @ [\<lparr>declId = lid, declRefs = []\<rparr>])"

definition clusterArn :: "Cluster \<Rightarrow> tok" where
  "clusterArn c = GetAtt (clusterId c) ''Arn''"

text \<open>
  The provider library is not under src.  The identity-mapping entries of a cluster are
  rendered into one resource, its \<^verbatim>\<open>aws-auth\<close> manifest.  The resource is declared when
  the first entry is added.  Its content is rendered when the stack is synthesised, so
  it mentions the ARN of the role of every entry, also of the entries added after it
  was declared.
\<close>

definition awsAuthRefs :: "string list \<Rightarrow> Decl \<Rightarrow> Decl" where
  "awsAuthRefs rs d = (if declId d = ''AwsAuth'' then d\<lparr>declRefs := declRefs d @ rs\<rparr> else d)"

definition addRoleMapping ::
    "Role \<Rightarrow> AwsAuthMapping \<Rightarrow> Cluster \<Rightarrow> Decl list \<Rightarrow> Cluster \<times> Decl list" where
  "addRoleMapping role mapping c log =
     (c\<lparr>awsAuth := awsAuth c @ [(role, mapping)]\<rparr>,
      map (awsAuthRefs (refs (roleArn role)))
        (if awsAuth c = [] then log @ [\<lparr>declId = ''AwsAuth'', declRefs = [clusterId c]\<rparr>]
         else log))"

text \<open>
  The provider library is not under src.  A managed node group is created with a role of
  its own for the nodes, and registers that role in the identity mapping of its cluster,
  so that the nodes can join.
\<close>

definition nodeRoleProps :: RoleProps where
  "nodeRoleProps =
     \<lparr>assumedBy = ServicePrincipal ''ec2.amazonaws.com'',
      managedPolicies =
        [fromAwsManagedPolicyName ''AmazonEKSWorkerNodePolicy'',
         fromAwsManagedPolicyName ''AmazonEKS_CNI_Policy'',
         fromAwsManagedPolicyName ''AmazonEC2ContainerRegistryReadOnly'']\<rparr>"

definition nodeMapping :: AwsAuthMapping where
  "nodeMapping =
     \<lparr>username = ''system:node:{{EC2PrivateDNSName}}'',
      groups = [''system:bootstrappers'', ''system:nodes'']\<rparr>"

definition addNodegroupCapacity ::
    "string \<Rightarrow> NodegroupOptions \<Rightarrow> Cluster \<Rightarrow> Decl list \<Rightarrow> Cluster \<times> Decl list" where
  "addNodegroupCapacity nid opts c log =
     (let (role, log) = new_Role (nid @ ''NodeGroupRole'') nodeRoleProps log;
          c = c\<lparr>nodegroups := nodegroups c @ [(nid, opts)]\<rparr>;
          log = log @ [\<lparr>declId = nid, declRefs = clusterId c # refs (roleArn role)\<rparr>]
      in addRoleMapping role nodeMapping c log)"

text \<open>
  The provider library is not under src.  The cluster resource is placed in the subnets
  selected by \<open>vpcSubnets\<close>.  Unless \<open>defaultCapacity\<close> is passed as 0, the constructor
  itself adds a node group \<open>DefaultCapacity\<close> of that minimum size (2 when the prop is not
  passed) and of the instance type \<open>defaultCapacityInstance\<close> (m5.large when not passed).
\<close>

definition new_Cluster :: "string \<Rightarrow> ClusterProps \<Rightarrow> Decl list \<Rightarrow> Cluster \<times> Decl list" where
  "new_Cluster cid p log =
     (let c = \<lparr>clusterId = cid, clusterProps = p, nodegroups = [], manifests = [],
               awsAuth = []\<rparr>;
          log = log @ [\<lparr>declId = cid,
                  declRefs = vpcId (cluster_vpc p)
                    # concat (map (\<lambda>sel. concat (map (\<lambda>s. refs (subnetId s))
                                       (subnets_sel (selectSubnets (cluster_vpc p) sel))))
                                  (vpcSubnets p))\<rparr>];
          minCapacity = (case defaultCapacity p of None \<Rightarrow> 2 | Some n \<Rightarrow> n);
          instanceType = (case defaultCapacityInstance p of
                            None \<Rightarrow> InstanceType_of M5 LARGE | Some t \<Rightarrow> t)
      in if minCapacity > 0
         then addNodegroupCapacity ''DefaultCapacity''
                \<lparr>instanceTypes = [instanceType], desiredSize = None,
                 minSize = Some minCapacity, maxSize = None\<rparr> c log
         else (c, log))"

text \<open>A manifest is applied through the cluster it is added to, and so refers to it.\<close>

definition addManifest :: "string \<Rightarrow> json \<Rightarrow> Cluster \<Rightarrow> Decl list \<Rightarrow> Cluster \<times> Decl list" where
  "addManifest mid manifest c log =
     (c\<lparr>manifests := manifests c @ [(mid, injectPruneLabel mid manifest)]\<rparr>,
      log @ [\<lparr>declId = mid, declRefs = [clusterId c]\<rparr>])"

subsection \<open>Metrics workspace, scraper, dashboard workspace\<close>

record aps_CfnWorkspaceProps =
  alias_ws :: string

record aps_CfnWorkspace =
  workspaceId :: string
  workspaceProps :: aps_CfnWorkspaceProps

definition new_aps_CfnWorkspace ::
    "string \<Rightarrow> aps_CfnWorkspaceProps \<Rightarrow> Decl list \<Rightarrow> aps_CfnWorkspace \<times> Decl list" where
  "new_aps_CfnWorkspace wid p log =
     (\<lparr>workspaceId = wid, workspaceProps = p\<rparr>, log @ [\<lparr>declId = wid, declRefs = []\<rparr>])"

definition attrArn :: "aps_CfnWorkspace \<Rightarrow> tok" where
  "attrArn w = GetAtt (workspaceId w) ''Arn''"

record AmpConfiguration =
  workspaceArn :: tok

record Destination =
  ampConfiguration :: AmpConfiguration

record ScrapeConfiguration =
  configurationBlob :: string

record EksConfiguration =
  clusterArn_eks :: tok
  subnetIds :: "tok list"

record Source =
  eksConfiguration :: EksConfiguration

record CfnScraperProps =
  destination :: Destination
  scrapeConfiguration :: ScrapeConfiguration
  source :: Source

record CfnScraper =
  scraperId :: string
  scraperProps :: CfnScraperProps

definition new_CfnScraper ::
    "string \<Rightarrow> CfnScraperProps \<Rightarrow> Decl list \<Rightarrow> CfnScraper \<times> Decl list" where
  "new_CfnScraper sid p log =
     (\<lparr>scraperId = sid, scraperProps = p\<rparr>,
      log @ [\<lparr>declId = sid,
              declRefs = refs (workspaceArn (ampConfiguration (destination p)))
                       @ refs (clusterArn_eks (eksConfiguration (source p)))
                       @ concat (map refs (subnetIds (eksConfiguration (source p))))\<rparr>])"

definition attrRoleArn :: "CfnScraper \<Rightarrow> tok" where
  "attrRoleArn s = GetAtt (scraperId s) ''RoleArn''"

record grafana_CfnWorkspaceProps =
  name :: string
  accountAccessType :: string
  authenticationProviders :: "string list"
  permissionType :: string
  roleArn_ws :: tok
  pluginAdminEnabled :: bool

record grafana_CfnWorkspace =
  grafanaId :: string
  grafanaProps :: grafana_CfnWorkspaceProps

definition new_grafana_CfnWorkspace ::
    "string \<Rightarrow> grafana_CfnWorkspaceProps \<Rightarrow> Decl list \<Rightarrow> grafana_CfnWorkspace \<times> Decl list" where
  "new_grafana_CfnWorkspace gid p log =
     (\<lparr>grafanaId = gid, grafanaProps = p\<rparr>,
      log @ [\<lparr>declId = gid, declRefs = refs (roleArn_ws p)\<rparr>])"

section \<open>The stack: \<^verbatim>\<open>lib/amp-and-grafana-stack.ts\<close>\<close>

text \<open>
  What the construction reads from outside: the environment passed by
  \<^verbatim>\<open>bin/index.ts\<close>, the availability zones of that environment, and the scrape
  configuration imported from \<^verbatim>\<open>config/config-blob\<close> (not under src, taken as given).
\<close>

record Inputs =
  account :: string
  region :: string
  availabilityZones :: "string list"
  configBlob :: string

definition createVPC :: "Inputs \<Rightarrow> Decl list \<Rightarrow> Vpc \<times> Decl list" where
  "createVPC inp log =
     new_Vpc (availabilityZones inp) ''VPC''
       \<lparr>maxAzs = 3, enableDnsHostnames = True, enableDnsSupport = True\<rparr> log"

definition createEKSCluster :: "Vpc \<Rightarrow> Decl list \<Rightarrow> Cluster \<times> Decl list" where
  "createEKSCluster this_vpc log =
     (let (kubectlLayer, log) = new_KubectlV30Layer ''KubectlLayer'' log;
          (cluster, log) = new_Cluster ''Cluster''
             \<lparr>cluster_vpc = this_vpc,
              kubectlLayer = kubectlLayer,
              version = V1_30,
              vpcSubnets = [\<lparr>subnetType_sel = PRIVATE_WITH_EGRESS\<rparr>],
              clusterLogging = [API, AUTHENTICATOR, AUDIT],
              endpointAccess = PUBLIC_AND_PRIVATE,
              defaultCapacity = None,
              defaultCapacityInstance = None\<rparr> log
      in addNodegroupCapacity ''ManagedNodeGroup''
           \<lparr>instanceTypes = [InstanceType_of M5 LARGE],
            desiredSize = Some 1, minSize = None, maxSize = None\<rparr> cluster log)"

definition createPrometheusWorkspace :: "Decl list \<Rightarrow> aps_CfnWorkspace \<times> Decl list" where
  "createPrometheusWorkspace log =
     new_aps_CfnWorkspace ''PrometheusWorkspace'' \<lparr>alias_ws = ''my-prometheus-workspace''\<rparr> log"

definition createPromehtheusScraper ::
    "Inputs \<Rightarrow> Vpc \<Rightarrow> Cluster \<Rightarrow> aps_CfnWorkspace \<Rightarrow> Decl list \<Rightarrow> CfnScraper \<times> Decl list" where
  "createPromehtheusScraper inp this_vpc this_cluster this_prometheusWorkspace log =
     (let privateSubnets =
            subnets_sel (selectSubnets this_vpc \<lparr>subnetType_sel = PRIVATE_WITH_EGRESS\<rparr>)
      in new_CfnScraper ''PrometheusScraper''
           \<lparr>destination =
              \<lparr>ampConfiguration = \<lparr>workspaceArn = attrArn this_prometheusWorkspace\<rparr>\<rparr>,
            scrapeConfiguration = \<lparr>configurationBlob = configBlob inp\<rparr>,
            source =
              \<lparr>eksConfiguration =
                 \<lparr>clusterArn_eks = clusterArn this_cluster,
                  subnetIds = map (\<lambda>subnet. subnetId subnet) privateSubnets\<rparr>\<rparr>\<rparr> log)"

definition clusterRoleManifest :: json where
  "clusterRoleManifest =
     JObj [
       (''apiVersion'', JStr ''rbac.authorization.k8s.io/v1''),
       (''kind'', JStr ''ClusterRole''),
       (''metadata'', JObj [(''name'', JStr ''aps-collector-role'')]),
       (''rules'', JArr [
          JObj [
            (''apiGroups'', JArr [JStr '''']),
            (''resources'', JArr [
               JStr ''nodes'',
               JStr ''nodes/proxy'',
               JStr ''nodes/metrics'',
               JStr ''services'',
               JStr ''endpoints'',
               JStr ''pods'',
               JStr ''ingresses'',
               JStr ''configmaps'']),
            (''verbs'', JArr [JStr ''describe'', JStr ''get'', JStr ''list'', JStr ''watch''])],
          JObj [
            (''apiGroups'', JArr [JStr ''extensions'', JStr ''networking.k8s.io'']),
            (''resources'', JArr [JStr ''ingresses/status'', JStr ''ingresses'']),
            (''verbs'', JArr [JStr ''describe'', JStr ''get'', JStr ''list'', JStr ''watch''])],
          JObj [
            (''nonResourceURLs'', JArr [JStr ''/metrics'']),
            (''verbs'', JArr [JStr ''get''])]])]"

definition clusterRoleBindingManifest :: json where
  "clusterRoleBindingManifest =
     JObj [
       (''apiVersion'', JStr ''rbac.authorization.k8s.io/v1''),
       (''kind'', JStr ''ClusterRoleBinding''),
       (''metadata'', JObj [(''name'', JStr ''aps-collector-user-role-binding'')]),
       (''subjects'', JArr [
          JObj [
            (''kind'', JStr ''User''),
            (''name'', JStr ''aps-collector-user''),
            (''apiGroup'', JStr ''rbac.authorization.k8s.io'')]]),
       (''roleRef'', JObj [
          (''kind'', JStr ''ClusterRole''),
          (''name'', JStr ''aps-collector-role''),
          (''apiGroup'', JStr ''rbac.authorization.k8s.io'')])]"

definition createPrometheusScraperRoleBinding ::
    "Cluster \<Rightarrow> CfnScraper \<Rightarrow> Decl list \<Rightarrow> Cluster \<times> Decl list" where
  "createPrometheusScraperRoleBinding this_cluster this_prometheusScraper log =
     (let (cluster, log) = addManifest ''ApsCollectorClusterRole'' clusterRoleManifest
                             this_cluster log;
          (cluster, log) = addManifest ''ApsCollectorClusterRoleBinding''
                             clusterRoleBindingManifest cluster log;
          scraperRole = fromRoleArn ''EKSScraperRole''
                          (modifiedArn (attrRoleArn this_prometheusScraper));
          username = ''aps-collector-user'';
          groups = [''system:masters'']
      in addRoleMapping scraperRole \<lparr>username = username, groups = groups\<rparr> cluster log)"

definition createGrafanaWorkspace ::
    "Decl list \<Rightarrow> (Role \<times> grafana_CfnWorkspace) \<times> Decl list" where
  "createGrafanaWorkspace log =
     (let (grafanaRole, log) = new_Role ''GrafanaRole''
             \<lparr>assumedBy = ServicePrincipal ''grafana.amazonaws.com'',
              managedPolicies = [fromAwsManagedPolicyName ''AmazonPrometheusFullAccess'']\<rparr> log;
          (ws, log) = new_grafana_CfnWorkspace ''GrafanaWorkspace''
             \<lparr>name = ''my-grafana-workspace'',
              accountAccessType = ''CURRENT_ACCOUNT'',
              authenticationProviders = [''AWS_SSO''],
              permissionType = ''SERVICE_MANAGED'',
              roleArn_ws = roleArn grafanaRole,
              pluginAdminEnabled = True\<rparr> log
      in ((grafanaRole, ws), log))"

record Stack =
  vpc :: Vpc
  cluster :: Cluster
  prometheusWorkspace :: aps_CfnWorkspace
  prometheusScraper :: CfnScraper
  grafanaRole :: Role
  grafanaWorkspace :: grafana_CfnWorkspace
  declared :: "Decl list"

definition AmpAndGrafanaStack :: "Inputs \<Rightarrow> Stack" where
  "AmpAndGrafanaStack inp =
     (let (this_vpc, log) = createVPC inp [];
          (this_cluster, log) = createEKSCluster this_vpc log;
          (this_prometheusWorkspace, log) = createPrometheusWorkspace log;
          (this_prometheusScraper, log) =
             createPromehtheusScraper inp this_vpc this_cluster this_prometheusWorkspace log;
          (this_cluster, log) =
             createPrometheusScraperRoleBinding this_cluster this_prometheusScraper log;
          ((role, ws), log) = createGrafanaWorkspace log
      in \<lparr>vpc = this_vpc, cluster = this_cluster,
          prometheusWorkspace = this_prometheusWorkspace,
          prometheusScraper = this_prometheusScraper,
          grafanaRole = role, grafanaWorkspace = ws, declared = log\<rparr>)"

text \<open>The entry point \<^verbatim>\<open>bin/index.ts\<close>: the stack for a fixed account and region.\<close>

definition app :: "string list \<Rightarrow> string \<Rightarrow> Stack" where
  "app azs blob =
     AmpAndGrafanaStack \<lparr>account = ''114043003553'', region = ''us-east-1'',
                         availabilityZones = azs, configBlob = blob\<rparr>"

section \<open>The provisioning engine\<close>

text \<open>\<open>before a b xs\<close>: both occur in \<open>xs\<close>, and \<open>a\<close> ahead of the first \<open>b\<close>.\<close>

definition before :: "'a \<Rightarrow> 'a \<Rightarrow> 'a list \<Rightarrow> bool" where
  "before a b xs = (b \<in> set xs \<and> a \<in> set (takeWhile (\<lambda>x. x \<noteq> b) xs))"

text \<open>
  Modelled from the spec: the provisioning engine is an external service and not under
  src.  By section 5 of the spec it creates the declared resources in an order of its
  own choosing that respects the declared dependency edges.  The stack declares no edge
  explicitly (there is no \<^verbatim>\<open>addDependency\<close> in the source), so the edges are the
  references logged with each declaration.  \<open>order\<close> is the sequence in which the
  engine creates the resources.
\<close>

definition respectsEdges :: "Decl list \<Rightarrow> string list \<Rightarrow> bool" where
  "respectsEdges ds order =
     (distinct order \<and> (\<forall>x \<in> set order. x \<in> set (map declId ds)) \<and>
      (\<forall>d \<in> set ds. declId d \<in> set order \<and>
                     (\<forall>r \<in> set (declRefs d). before r (declId d) order)))"

section \<open>Reading the manifests and the policies\<close>

text \<open>The verbs that the rules of a cluster-role manifest grant.\<close>

definition roleVerbs :: "json \<Rightarrow> string list" where
  "roleVerbs manifest =
     concat (map (\<lambda>rule. jstrings (jget ''verbs'' rule)) (jelems (jget ''rules'' manifest)))"

text \<open>
  Outside the repository: a Kubernetes cluster comes with the group \<open>system:masters\<close>
  bound to the built-in cluster role \<open>cluster-admin\<close>, whose rule grants every verb
  (written \<open>*\<close>) on every resource.  No other group has a built-in grant that matters
  here.
\<close>

definition builtinGroupVerbs :: "string \<Rightarrow> string list" where
  "builtinGroupVerbs g = (if g = ''system:masters'' then [''*''] else [])"

text \<open>
  The spec speaks of ``the metrics-read managed policy'': among the provider's managed
  policies for the metrics service that is the query-only one.  It is named here after
  the spec, to be compared with the policy the source attaches.
\<close>

definition spec_metricsReadPolicy :: ManagedPolicy where
  "spec_metricsReadPolicy = fromAwsManagedPolicyName ''AmazonPrometheusQueryAccess''"

section \<open>A concrete deployment\<close>

text \<open>
  The inputs of \<^verbatim>\<open>bin/index.ts\<close> in a region of four zones, and two orders in
  which an engine may create the resources of that stack.
\<close>

definition inp0 :: Inputs where
  "inp0 = \<lparr>account = ''114043003553'', region = ''us-east-1'',
           availabilityZones = [''us-east-1a'', ''us-east-1b'', ''us-east-1c'', ''us-east-1d''],
           configBlob = ''global: {scrape_interval: 30s}''\<rparr>"

definition schedule0 :: "string list" where
  "schedule0 =
     [''VPC'', ''VPCPublicSubnet1Subnet'', ''VPCPublicSubnet2Subnet'', ''VPCPublicSubnet3Subnet'',
      ''VPCPrivateSubnet1Subnet'', ''VPCPrivateSubnet2Subnet'', ''VPCPrivateSubnet3Subnet'',
      ''KubectlLayer'', ''Cluster'',
      ''DefaultCapacityNodeGroupRole'', ''DefaultCapacity'',
      ''ManagedNodeGroupNodeGroupRole'', ''ManagedNodeGroup'',
      ''ApsCollectorClusterRole'', ''ApsCollectorClusterRoleBinding'',
      ''PrometheusWorkspace'', ''PrometheusScraper'', ''AwsAuth'',
      ''GrafanaRole'', ''GrafanaWorkspace'']"

definition schedule1 :: "string list" where
  "schedule1 =
     [''GrafanaRole'', ''GrafanaWorkspace'', ''PrometheusWorkspace'', ''KubectlLayer'',
      ''VPC'', ''VPCPrivateSubnet1Subnet'', ''VPCPrivateSubnet2Subnet'',
      ''VPCPrivateSubnet3Subnet'', ''VPCPublicSubnet1Subnet'', ''VPCPublicSubnet2Subnet'',
      ''VPCPublicSubnet3Subnet'',
      ''Cluster'', ''PrometheusScraper'',
      ''ManagedNodeGroupNodeGroupRole'', ''DefaultCapacityNodeGroupRole'',
      ''AwsAuth'', ''ApsCollectorClusterRoleBinding'', ''ApsCollectorClusterRole'',
      ''ManagedNodeGroup'', ''DefaultCapacity'']"

section \<open>Properties of the role-ARN transformation\<close>

lemma js_split_not_Nil: "js_split d s \<noteq> []"
  by (induction s) (auto split: list.splits)

lemma js_split_no_sep: "d \<notin> set s \<Longrightarrow> js_split d s = [s]"
  by (induction s) auto

lemma js_split_piece:
  "d \<notin> set p \<Longrightarrow> js_split d (p @ d # rest) = p # js_split d rest"
  by (induction p) auto

lemma js_split_four:
  assumes "d \<notin> set p" "d \<notin> set a" "d \<notin> set b" "d \<notin> set c"
  shows "js_split d (p @ d # a @ d # b @ d # c) = [p, a, b, c]"
  using assms by (simp add: js_split_piece js_split_no_sep)

lemma no_unresolved_Str: "\<not> list_ex isUnresolved (map Str xs)"
  by (induction xs) auto

lemma modifiedArn_Str:
  "modifiedArn (Str s) =
     Str (hd (js_split CHR ''/'' s) @ ''/'' @
          (if length (js_split CHR ''/'' s) \<le> 3 then ''undefined''
           else js_split CHR ''/'' s ! 3))"
proof -
  obtain x xs where sp: "js_split CHR ''/'' s = x # xs"
    using js_split_not_Nil by (cases "js_split CHR ''/'' s") auto
  show ?thesis
    by (simp add: modifiedArn_def Fn_split_def Fn_select_def no_unresolved_Str sp
        interpolate_def template_literal_def Let_def)
qed

lemma modifiedArn_unresolved:
  "isUnresolved t \<Longrightarrow>
   modifiedArn t =
     FnJoin [] [FnSelect 0 (FnSplit CHR ''/'' t), Str ''/'', FnSelect 3 (FnSplit CHR ''/'' t)]"
  by (cases t)
     (simp_all add: modifiedArn_def Fn_split_def Fn_select_def interpolate_def
        template_literal_def Let_def)

text \<open>
  C2.  The transformation splits the role ARN on \<open>/\<close> and joins the first piece with the
  piece at index 3: an input \<open>prefix/aa/bb/cc\<close> of four pieces splits into exactly these
  four, and the result is \<open>prefix/cc\<close>, the prefix with the final piece.
\<close>

theorem modifiedArn_prefix_last:
  assumes "CHR ''/'' \<notin> set prefix" and "CHR ''/'' \<notin> set aa"
    and "CHR ''/'' \<notin> set bb" and "CHR ''/'' \<notin> set cc"
  shows "Fn_split CHR ''/'' (Str (prefix @ ''/'' @ aa @ ''/'' @ bb @ ''/'' @ cc))
           = Elems [Str prefix, Str aa, Str bb, Str cc]
       \<and> modifiedArn (Str (prefix @ ''/'' @ aa @ ''/'' @ bb @ ''/'' @ cc))
           = Str (prefix @ ''/'' @ cc)"
proof -
  have sp: "js_split CHR ''/'' (prefix @ CHR ''/'' # aa @ CHR ''/'' # bb @ CHR ''/'' # cc)
              = [prefix, aa, bb, cc]"
    by (rule js_split_four [OF assms])
  show ?thesis
    by (simp add: modifiedArn_Str sp Fn_split_def)
qed

theorem modifiedArn_prefix_last_witness:
  "modifiedArn (Str ''arn:aws:iam::123:role/aws-service-role/aps.amazonaws.com/AWSServiceRoleForAmazonPrometheusScraper_x'')
     = Str ''arn:aws:iam::123:role/AWSServiceRoleForAmazonPrometheusScraper_x''"
  using modifiedArn_prefix_last [of "''arn:aws:iam::123:role''" "''aws-service-role''"
      "''aps.amazonaws.com''" "''AWSServiceRoleForAmazonPrometheusScraper_x''"]
  by simp

text \<open>
  C3.  The transformation has no error path: on every input it returns a value.  A known
  string of fewer than four pieces gives the first piece followed by \<open>/undefined\<close>, one of
  more than four pieces gives the first piece and the piece at index 3 (which is then
  not the last one), and an unknown input gives the recorded join of the two selections.
\<close>

theorem modifiedArn_total:
  "modifiedArn arn =
     (case arn of
        Str s \<Rightarrow>
          Str (hd (js_split CHR ''/'' s) @ ''/'' @
               (if length (js_split CHR ''/'' s) \<le> 3 then ''undefined''
                else js_split CHR ''/'' s ! 3))
      | _ \<Rightarrow> FnJoin [] [FnSelect 0 (FnSplit CHR ''/'' arn), Str ''/'',
                         FnSelect 3 (FnSplit CHR ''/'' arn)])"
  by (cases arn) (simp_all add: modifiedArn_Str modifiedArn_unresolved)

lemma modifiedArn_three_pieces: "modifiedArn (Str ''p/aa/cc'') = Str ''p/undefined''"
  by (simp add: modifiedArn_Str)

lemma modifiedArn_five_pieces: "modifiedArn (Str ''p/aa/bb/cc/dd'') = Str ''p/cc''"
  by (simp add: modifiedArn_Str)

section \<open>What the constructor builds\<close>

subsection \<open>The network\<close>

lemma tierSubnets_type: "s \<in> set (tierSubnets vid tier ty zones) \<Longrightarrow> subnetType s = ty"
  by (auto simp: tierSubnets_def)

lemma tierSubnets_id:
  "s \<in> set (tierSubnets vid tier ty zones) \<Longrightarrow> \<exists>rest. subnetId s = Ref (vid @ tier @ rest)"
  by (auto simp: tierSubnets_def)

lemma length_tierSubnets: "length (tierSubnets vid tier ty zones) = length zones"
  by (simp add: tierSubnets_def)

lemma filter_tierSubnets:
  "filter (\<lambda>s. subnetType s = ty') (tierSubnets vid tier ty zones) =
     (if ty = ty' then tierSubnets vid tier ty zones else [])"
  by (auto simp: filter_empty_conv dest: tierSubnets_type intro: filter_True)

lemma createVPC_vpc:
  "fst (createVPC inp log) =
     \<lparr>vpcId = ''VPC'',
      vpcProps = \<lparr>maxAzs = 3, enableDnsHostnames = True, enableDnsSupport = True\<rparr>,
      subnets = tierSubnets ''VPC'' ''Public'' PUBLIC (take 3 (availabilityZones inp))
              @ tierSubnets ''VPC'' ''Private'' PRIVATE_WITH_EGRESS
                  (take 3 (availabilityZones inp))\<rparr>"
  by (simp add: createVPC_def new_Vpc_def Let_def)

lemma createVPC_log:
  "snd (createVPC inp []) =
     \<lparr>declId = ''VPC'', declRefs = []\<rparr>
     # map (\<lambda>l. \<lparr>declId = l, declRefs = [''VPC'']\<rparr>)
           (concat (map (\<lambda>s. refs (subnetId s)) (subnets (fst (createVPC inp [])))))"
  by (simp add: createVPC_def new_Vpc_def Let_def)

lemma createVPC_subnet_ids:
  assumes "l \<in> set (concat (map (\<lambda>s. refs (subnetId s)) (subnets (fst (createVPC inp log)))))"
  shows "\<exists>rest. l = ''VPC'' @ rest"
proof -
  from assms obtain s where s: "s \<in> set (subnets (fst (createVPC inp log)))"
      and l: "l \<in> set (refs (subnetId s))"
    by auto
  from s have "s \<in> set (tierSubnets ''VPC'' ''Public'' PUBLIC (take 3 (availabilityZones inp)))
             \<or> s \<in> set (tierSubnets ''VPC'' ''Private'' PRIVATE_WITH_EGRESS
                          (take 3 (availabilityZones inp)))"
    by (simp add: createVPC_vpc)
  then obtain tier rest where "subnetId s = Ref (''VPC'' @ tier @ rest)"
    using tierSubnets_id by blast
  with l show ?thesis by auto
qed

lemma createVPC_log_ids:
  assumes "d \<in> set (snd (createVPC inp []))"
  shows "\<exists>rest. declId d = ''VPC'' @ rest"
proof -
  from assms have "d = \<lparr>declId = ''VPC'', declRefs = []\<rparr>
      \<or> declId d \<in> set (concat (map (\<lambda>s. refs (subnetId s))
                             (subnets (fst (createVPC inp [])))))"
    unfolding createVPC_log by auto
  then show ?thesis
  proof
    assume "d = \<lparr>declId = ''VPC'', declRefs = []\<rparr>"
    then show ?thesis by simp
  next
    assume "declId d \<in> set (concat (map (\<lambda>s. refs (subnetId s))
                             (subnets (fst (createVPC inp [])))))"
    then show ?thesis by (rule createVPC_subnet_ids)
  qed
qed

lemma createVPC_no_AwsAuth: "\<forall>d \<in> set (snd (createVPC inp [])). declId d \<noteq> ''AwsAuth''"
  using createVPC_log_ids by fastforce

subsection \<open>The cluster\<close>

lemma awsAuthRefs_other:
  "\<forall>d \<in> set log. declId d \<noteq> ''AwsAuth'' \<Longrightarrow> map (awsAuthRefs rs) log = log"
  by (rule map_idI) (simp add: awsAuthRefs_def)

lemma awsAuthRefs_decl:
  "awsAuthRefs rs \<lparr>declId = i, declRefs = r\<rparr> =
     (if i = ''AwsAuth'' then \<lparr>declId = i, declRefs = r @ rs\<rparr>
      else \<lparr>declId = i, declRefs = r\<rparr>)"
  by (simp add: awsAuthRefs_def)

lemma addNodegroupCapacity_eq:
  "addNodegroupCapacity nid opts c log =
     addRoleMapping \<lparr>roleArn = GetAtt (nid @ ''NodeGroupRole'') ''Arn'',
                     roleProps = Some nodeRoleProps\<rparr> nodeMapping
       (c\<lparr>nodegroups := nodegroups c @ [(nid, opts)]\<rparr>)
       (log @ [\<lparr>declId = nid @ ''NodeGroupRole'', declRefs = []\<rparr>,
               \<lparr>declId = nid, declRefs = [clusterId c, nid @ ''NodeGroupRole'']\<rparr>])"
  by (simp add: addNodegroupCapacity_def new_Role_def Let_def)

lemma createEKSCluster_eq:
  assumes "\<forall>d \<in> set log. declId d \<noteq> ''AwsAuth''"
  shows "createEKSCluster v log =
     (\<lparr>clusterId = ''Cluster'',
       clusterProps =
         \<lparr>cluster_vpc = v,
          kubectlLayer = ''KubectlLayer'',
          version = V1_30,
          vpcSubnets = [\<lparr>subnetType_sel = PRIVATE_WITH_EGRESS\<rparr>],
          clusterLogging = [API, AUTHENTICATOR, AUDIT],
          endpointAccess = PUBLIC_AND_PRIVATE,
          defaultCapacity = None,
          defaultCapacityInstance = None\<rparr>,
       nodegroups =
         [(''DefaultCapacity'',
           \<lparr>instanceTypes = [InstanceType_of M5 LARGE], desiredSize = None,
            minSize = Some 2, maxSize = None\<rparr>),
          (''ManagedNodeGroup'',
           \<lparr>instanceTypes = [InstanceType_of M5 LARGE], desiredSize = Some 1,
            minSize = None, maxSize = None\<rparr>)],
       manifests = [],
       awsAuth =
         [(\<lparr>roleArn = GetAtt ''DefaultCapacityNodeGroupRole'' ''Arn'',
            roleProps = Some nodeRoleProps\<rparr>, nodeMapping),
          (\<lparr>roleArn = GetAtt ''ManagedNodeGroupNodeGroupRole'' ''Arn'',
            roleProps = Some nodeRoleProps\<rparr>, nodeMapping)]\<rparr>,
      log @
      [\<lparr>declId = ''KubectlLayer'', declRefs = []\<rparr>,
       \<lparr>declId = ''Cluster'', declRefs = vpcId v #
           concat (map (\<lambda>s. refs (subnetId s))
             (subnets_sel (selectSubnets v \<lparr>subnetType_sel = PRIVATE_WITH_EGRESS\<rparr>)))\<rparr>,
       \<lparr>declId = ''DefaultCapacityNodeGroupRole'', declRefs = []\<rparr>,
       \<lparr>declId = ''DefaultCapacity'',
        declRefs = [''Cluster'', ''DefaultCapacityNodeGroupRole'']\<rparr>,
       \<lparr>declId = ''AwsAuth'',
        declRefs = [''Cluster'', ''DefaultCapacityNodeGroupRole'',
                    ''ManagedNodeGroupNodeGroupRole'']\<rparr>,
       \<lparr>declId = ''ManagedNodeGroupNodeGroupRole'', declRefs = []\<rparr>,
       \<lparr>declId = ''ManagedNodeGroup'',
        declRefs = [''Cluster'', ''ManagedNodeGroupNodeGroupRole'']\<rparr>])"
  by (simp add: createEKSCluster_def new_KubectlV30Layer_def new_Cluster_def
      addNodegroupCapacity_eq addRoleMapping_def Let_def awsAuthRefs_other [OF assms]
      awsAuthRefs_decl del: map_map)

lemma createPrometheusScraperRoleBinding_eq:
  assumes "awsAuth c \<noteq> []"
  shows "createPrometheusScraperRoleBinding c s log =
     (c\<lparr>manifests := manifests c @
            [(''ApsCollectorClusterRole'',
              injectPruneLabel ''ApsCollectorClusterRole'' clusterRoleManifest),
             (''ApsCollectorClusterRoleBinding'',
              injectPruneLabel ''ApsCollectorClusterRoleBinding'' clusterRoleBindingManifest)],
         awsAuth := awsAuth c @
            [(\<lparr>roleArn = modifiedArn (attrRoleArn s), roleProps = None\<rparr>,
              \<lparr>username = ''aps-collector-user'', groups = [''system:masters'']\<rparr>)]\<rparr>,
      map (awsAuthRefs (refs (modifiedArn (attrRoleArn s))))
        (log @ [\<lparr>declId = ''ApsCollectorClusterRole'', declRefs = [clusterId c]\<rparr>,
                \<lparr>declId = ''ApsCollectorClusterRoleBinding'', declRefs = [clusterId c]\<rparr>]))"
  using assms
  by (simp add: createPrometheusScraperRoleBinding_def addManifest_def addRoleMapping_def
      fromRoleArn_def Let_def)

lemma modifiedArn_GetAtt_refs: "refs (modifiedArn (GetAtt l a)) = [l, l]"
  by (simp add: modifiedArn_unresolved)

lemma createPromehtheusScraper_eq:
  "createPromehtheusScraper inp v c w log =
     (\<lparr>scraperId = ''PrometheusScraper'',
       scraperProps =
         \<lparr>destination = \<lparr>ampConfiguration = \<lparr>workspaceArn = attrArn w\<rparr>\<rparr>,
          scrapeConfiguration = \<lparr>configurationBlob = configBlob inp\<rparr>,
          source =
            \<lparr>eksConfiguration =
               \<lparr>clusterArn_eks = clusterArn c,
                subnetIds = map subnetId
                  (subnets_sel (selectSubnets v \<lparr>subnetType_sel = PRIVATE_WITH_EGRESS\<rparr>))\<rparr>\<rparr>\<rparr>\<rparr>,
      log @ [\<lparr>declId = ''PrometheusScraper'',
              declRefs = workspaceId w # clusterId c #
                concat (map (\<lambda>s. refs (subnetId s))
                  (subnets_sel (selectSubnets v \<lparr>subnetType_sel = PRIVATE_WITH_EGRESS\<rparr>)))\<rparr>])"
  by (simp add: createPromehtheusScraper_def new_CfnScraper_def Let_def attrArn_def
      clusterArn_def comp_def)

lemma createGrafanaWorkspace_eq:
  "createGrafanaWorkspace log =
     ((\<lparr>roleArn = GetAtt ''GrafanaRole'' ''Arn'',
        roleProps =
          Some \<lparr>assumedBy = ServicePrincipal ''grafana.amazonaws.com'',
                managedPolicies =
                  [fromAwsManagedPolicyName ''AmazonPrometheusFullAccess'']\<rparr>\<rparr>,
       \<lparr>grafanaId = ''GrafanaWorkspace'',
        grafanaProps =
          \<lparr>name = ''my-grafana-workspace'',
           accountAccessType = ''CURRENT_ACCOUNT'',
           authenticationProviders = [''AWS_SSO''],
           permissionType = ''SERVICE_MANAGED'',
           roleArn_ws = GetAtt ''GrafanaRole'' ''Arn'',
           pluginAdminEnabled = True\<rparr>\<rparr>),
      log @ [\<lparr>declId = ''GrafanaRole'', declRefs = []\<rparr>,
             \<lparr>declId = ''GrafanaWorkspace'', declRefs = [''GrafanaRole'']\<rparr>])"
  by (simp add: createGrafanaWorkspace_def new_Role_def new_grafana_CfnWorkspace_def Let_def)

subsection \<open>The stack\<close>

lemma stack_eq:
  "AmpAndGrafanaStack inp =
     \<lparr>vpc = fst (createVPC inp []),
      cluster =
        \<lparr>clusterId = ''Cluster'',
         clusterProps =
           \<lparr>cluster_vpc = fst (createVPC inp []),
            kubectlLayer = ''KubectlLayer'',
            version = V1_30,
            vpcSubnets = [\<lparr>subnetType_sel = PRIVATE_WITH_EGRESS\<rparr>],
            clusterLogging = [API, AUTHENTICATOR, AUDIT],
            endpointAccess = PUBLIC_AND_PRIVATE,
            defaultCapacity = None,
            defaultCapacityInstance = None\<rparr>,
         nodegroups =
           [(''DefaultCapacity'',
             \<lparr>instanceTypes = [InstanceType_of M5 LARGE], desiredSize = None,
              minSize = Some 2, maxSize = None\<rparr>),
            (''ManagedNodeGroup'',
             \<lparr>instanceTypes = [InstanceType_of M5 LARGE], desiredSize = Some 1,
              minSize = None, maxSize = None\<rparr>)],
         manifests =
           [(''ApsCollectorClusterRole'',
             injectPruneLabel ''ApsCollectorClusterRole'' clusterRoleManifest),
            (''ApsCollectorClusterRoleBinding'',
             injectPruneLabel ''ApsCollectorClusterRoleBinding'' clusterRoleBindingManifest)],
         awsAuth =
           [(\<lparr>roleArn = GetAtt ''DefaultCapacityNodeGroupRole'' ''Arn'',
              roleProps = Some nodeRoleProps\<rparr>, nodeMapping),
            (\<lparr>roleArn = GetAtt ''ManagedNodeGroupNodeGroupRole'' ''Arn'',
              roleProps = Some nodeRoleProps\<rparr>, nodeMapping),
            (\<lparr>roleArn = modifiedArn (GetAtt ''PrometheusScraper'' ''RoleArn''),
              roleProps = None\<rparr>,
             \<lparr>username = ''aps-collector-user'', groups = [''system:masters'']\<rparr>)]\<rparr>,
      prometheusWorkspace =
        \<lparr>workspaceId = ''PrometheusWorkspace'',
         workspaceProps = \<lparr>alias_ws = ''my-prometheus-workspace''\<rparr>\<rparr>,
      prometheusScraper =
        \<lparr>scraperId = ''PrometheusScraper'',
         scraperProps =
           \<lparr>destination =
              \<lparr>ampConfiguration = \<lparr>workspaceArn = GetAtt ''PrometheusWorkspace'' ''Arn''\<rparr>\<rparr>,
            scrapeConfiguration = \<lparr>configurationBlob = configBlob inp\<rparr>,
            source =
              \<lparr>eksConfiguration =
                 \<lparr>clusterArn_eks = GetAtt ''Cluster'' ''Arn'',
                  subnetIds = map subnetId
                    (subnets_sel (selectSubnets (fst (createVPC inp []))
                                    \<lparr>subnetType_sel = PRIVATE_WITH_EGRESS\<rparr>))\<rparr>\<rparr>\<rparr>\<rparr>,
      grafanaRole =
        \<lparr>roleArn = GetAtt ''GrafanaRole'' ''Arn'',
         roleProps =
           Some \<lparr>assumedBy = ServicePrincipal ''grafana.amazonaws.com'',
                 managedPolicies =
                   [fromAwsManagedPolicyName ''AmazonPrometheusFullAccess'']\<rparr>\<rparr>,
      grafanaWorkspace =
        \<lparr>grafanaId = ''GrafanaWorkspace'',
         grafanaProps =
           \<lparr>name = ''my-grafana-workspace'',
            accountAccessType = ''CURRENT_ACCOUNT'',
            authenticationProviders = [''AWS_SSO''],
            permissionType = ''SERVICE_MANAGED'',
            roleArn_ws = GetAtt ''GrafanaRole'' ''Arn'',
            pluginAdminEnabled = True\<rparr>\<rparr>,
      declared =
        snd (createVPC inp []) @
        [\<lparr>declId = ''KubectlLayer'', declRefs = []\<rparr>,
         \<lparr>declId = ''Cluster'', declRefs = ''VPC'' #
             concat (map (\<lambda>s. refs (subnetId s))
               (subnets_sel (selectSubnets (fst (createVPC inp []))
                               \<lparr>subnetType_sel = PRIVATE_WITH_EGRESS\<rparr>)))\<rparr>,
         \<lparr>declId = ''DefaultCapacityNodeGroupRole'', declRefs = []\<rparr>,
         \<lparr>declId = ''DefaultCapacity'',
          declRefs = [''Cluster'', ''DefaultCapacityNodeGroupRole'']\<rparr>,
         \<lparr>declId = ''AwsAuth'',
          declRefs = [''Cluster'', ''DefaultCapacityNodeGroupRole'',
                      ''ManagedNodeGroupNodeGroupRole'', ''PrometheusScraper'',
                      ''PrometheusScraper'']\<rparr>,
         \<lparr>declId = ''ManagedNodeGroupNodeGroupRole'', declRefs = []\<rparr>,
         \<lparr>declId = ''ManagedNodeGroup'',
          declRefs = [''Cluster'', ''ManagedNodeGroupNodeGroupRole'']\<rparr>,
         \<lparr>declId = ''PrometheusWorkspace'', declRefs = []\<rparr>,
         \<lparr>declId = ''PrometheusScraper'', declRefs = ''PrometheusWorkspace'' # ''Cluster'' #
             concat (map (\<lambda>s. refs (subnetId s))
               (subnets_sel (selectSubnets (fst (createVPC inp []))
                               \<lparr>subnetType_sel = PRIVATE_WITH_EGRESS\<rparr>)))\<rparr>,
         \<lparr>declId = ''ApsCollectorClusterRole'', declRefs = [''Cluster'']\<rparr>,
         \<lparr>declId = ''ApsCollectorClusterRoleBinding'', declRefs = [''Cluster'']\<rparr>,
         \<lparr>declId = ''GrafanaRole'', declRefs = []\<rparr>,
         \<lparr>declId = ''GrafanaWorkspace'', declRefs = [''GrafanaRole'']\<rparr>]\<rparr>"
  by (simp add: AmpAndGrafanaStack_def split_def Let_def
      createEKSCluster_eq [OF createVPC_no_AwsAuth] createPrometheusWorkspace_def
      new_aps_CfnWorkspace_def createPromehtheusScraper_eq
      createPrometheusScraperRoleBinding_eq modifiedArn_GetAtt_refs createGrafanaWorkspace_eq
      awsAuthRefs_other [OF createVPC_no_AwsAuth] awsAuthRefs_decl attrArn_def clusterArn_def
      attrRoleArn_def createVPC_vpc [THEN arg_cong, of vpcId])


subsection \<open>The parts of the stack\<close>

lemma stack_vpc_fst: "vpc (AmpAndGrafanaStack inp) = fst (createVPC inp [])"
  by (simp add: stack_eq)

lemma stack_vpc:
  "vpc (AmpAndGrafanaStack inp) =
     \<lparr>vpcId = ''VPC'',
      vpcProps = \<lparr>maxAzs = 3, enableDnsHostnames = True, enableDnsSupport = True\<rparr>,
      subnets = tierSubnets ''VPC'' ''Public'' PUBLIC (take 3 (availabilityZones inp))
              @ tierSubnets ''VPC'' ''Private'' PRIVATE_WITH_EGRESS
                  (take 3 (availabilityZones inp))\<rparr>"
  by (simp add: stack_vpc_fst createVPC_vpc)

lemma stack_scraper_arn:
  "attrRoleArn (prometheusScraper (AmpAndGrafanaStack inp)) = GetAtt ''PrometheusScraper'' ''RoleArn''"
  by (simp add: stack_eq attrRoleArn_def)

lemma stack_cluster:
  "cluster (AmpAndGrafanaStack inp) =
     \<lparr>clusterId = ''Cluster'',
      clusterProps =
        \<lparr>cluster_vpc = vpc (AmpAndGrafanaStack inp),
         kubectlLayer = ''KubectlLayer'',
         version = V1_30,
         vpcSubnets = [\<lparr>subnetType_sel = PRIVATE_WITH_EGRESS\<rparr>],
         clusterLogging = [API, AUTHENTICATOR, AUDIT],
         endpointAccess = PUBLIC_AND_PRIVATE,
         defaultCapacity = None,
         defaultCapacityInstance = None\<rparr>,
      nodegroups =
        [(''DefaultCapacity'',
          \<lparr>instanceTypes = [InstanceType_of M5 LARGE], desiredSize = None,
           minSize = Some 2, maxSize = None\<rparr>),
         (''ManagedNodeGroup'',
          \<lparr>instanceTypes = [InstanceType_of M5 LARGE], desiredSize = Some 1,
           minSize = None, maxSize = None\<rparr>)],
      manifests =
        [(''ApsCollectorClusterRole'',
          injectPruneLabel ''ApsCollectorClusterRole'' clusterRoleManifest),
         (''ApsCollectorClusterRoleBinding'',
          injectPruneLabel ''ApsCollectorClusterRoleBinding'' clusterRoleBindingManifest)],
      awsAuth =
        [(\<lparr>roleArn = GetAtt ''DefaultCapacityNodeGroupRole'' ''Arn'',
           roleProps = Some nodeRoleProps\<rparr>, nodeMapping),
         (\<lparr>roleArn = GetAtt ''ManagedNodeGroupNodeGroupRole'' ''Arn'',
           roleProps = Some nodeRoleProps\<rparr>, nodeMapping),
         (\<lparr>roleArn = modifiedArn (attrRoleArn (prometheusScraper (AmpAndGrafanaStack inp))),
           roleProps = None\<rparr>,
          \<lparr>username = ''aps-collector-user'', groups = [''system:masters'']\<rparr>)]\<rparr>"
  unfolding stack_scraper_arn stack_vpc_fst by (simp add: stack_eq)

lemma stack_scraper_subnetIds:
  "subnetIds (eksConfiguration (source (scraperProps (prometheusScraper (AmpAndGrafanaStack inp)))))
     = map subnetId (subnets_sel (selectSubnets (vpc (AmpAndGrafanaStack inp))
                        \<lparr>subnetType_sel = PRIVATE_WITH_EGRESS\<rparr>))"
  unfolding stack_vpc_fst by (simp add: stack_eq)

lemma stack_grafanaRole:
  "grafanaRole (AmpAndGrafanaStack inp) =
     \<lparr>roleArn = GetAtt ''GrafanaRole'' ''Arn'',
      roleProps =
        Some \<lparr>assumedBy = ServicePrincipal ''grafana.amazonaws.com'',
              managedPolicies = [fromAwsManagedPolicyName ''AmazonPrometheusFullAccess'']\<rparr>\<rparr>"
  by (simp add: stack_eq)

lemma stack_grafanaWorkspace:
  "grafanaWorkspace (AmpAndGrafanaStack inp) =
     \<lparr>grafanaId = ''GrafanaWorkspace'',
      grafanaProps =
        \<lparr>name = ''my-grafana-workspace'',
         accountAccessType = ''CURRENT_ACCOUNT'',
         authenticationProviders = [''AWS_SSO''],
         permissionType = ''SERVICE_MANAGED'',
         roleArn_ws = roleArn (grafanaRole (AmpAndGrafanaStack inp)),
         pluginAdminEnabled = True\<rparr>\<rparr>"
  by (simp add: stack_eq)

text \<open>The declarations in the order the constructor makes them, with their references.\<close>

lemma stack_declared:
  "declared (AmpAndGrafanaStack inp) =
     snd (createVPC inp []) @
     [\<lparr>declId = ''KubectlLayer'', declRefs = []\<rparr>,
      \<lparr>declId = ''Cluster'', declRefs = ''VPC'' #
          concat (map (\<lambda>s. refs (subnetId s))
            (subnets_sel (selectSubnets (vpc (AmpAndGrafanaStack inp))
                            \<lparr>subnetType_sel = PRIVATE_WITH_EGRESS\<rparr>)))\<rparr>,
      \<lparr>declId = ''DefaultCapacityNodeGroupRole'', declRefs = []\<rparr>,
      \<lparr>declId = ''DefaultCapacity'',
       declRefs = [''Cluster'', ''DefaultCapacityNodeGroupRole'']\<rparr>,
      \<lparr>declId = ''AwsAuth'',
       declRefs = [''Cluster'', ''DefaultCapacityNodeGroupRole'',
                   ''ManagedNodeGroupNodeGroupRole'', ''PrometheusScraper'',
                   ''PrometheusScraper'']\<rparr>,
      \<lparr>declId = ''ManagedNodeGroupNodeGroupRole'', declRefs = []\<rparr>,
      \<lparr>declId = ''ManagedNodeGroup'',
       declRefs = [''Cluster'', ''ManagedNodeGroupNodeGroupRole'']\<rparr>,
      \<lparr>declId = ''PrometheusWorkspace'', declRefs = []\<rparr>,
      \<lparr>declId = ''PrometheusScraper'', declRefs = ''PrometheusWorkspace'' # ''Cluster'' #
          concat (map (\<lambda>s. refs (subnetId s))
            (subnets_sel (selectSubnets (vpc (AmpAndGrafanaStack inp))
                            \<lparr>subnetType_sel = PRIVATE_WITH_EGRESS\<rparr>)))\<rparr>,
      \<lparr>declId = ''ApsCollectorClusterRole'', declRefs = [''Cluster'']\<rparr>,
      \<lparr>declId = ''ApsCollectorClusterRoleBinding'', declRefs = [''Cluster'']\<rparr>,
      \<lparr>declId = ''GrafanaRole'', declRefs = []\<rparr>,
      \<lparr>declId = ''GrafanaWorkspace'', declRefs = [''GrafanaRole'']\<rparr>]"
  unfolding stack_vpc_fst by (simp add: stack_eq)

lemma stack_declared_ids:
  "map declId (declared (AmpAndGrafanaStack inp)) =
     map declId (snd (createVPC inp [])) @
     [''KubectlLayer'', ''Cluster'', ''DefaultCapacityNodeGroupRole'', ''DefaultCapacity'',
      ''AwsAuth'', ''ManagedNodeGroupNodeGroupRole'', ''ManagedNodeGroup'',
      ''PrometheusWorkspace'', ''PrometheusScraper'', ''ApsCollectorClusterRole'',
      ''ApsCollectorClusterRoleBinding'', ''GrafanaRole'', ''GrafanaWorkspace'']"
  by (simp add: stack_declared)

lemma declared_inp0:
  "declared (AmpAndGrafanaStack inp0) =
     [\<lparr>declId = ''VPC'', declRefs = []\<rparr>,
      \<lparr>declId = ''VPCPublicSubnet1Subnet'', declRefs = [''VPC'']\<rparr>,
      \<lparr>declId = ''VPCPublicSubnet2Subnet'', declRefs = [''VPC'']\<rparr>,
      \<lparr>declId = ''VPCPublicSubnet3Subnet'', declRefs = [''VPC'']\<rparr>,
      \<lparr>declId = ''VPCPrivateSubnet1Subnet'', declRefs = [''VPC'']\<rparr>,
      \<lparr>declId = ''VPCPrivateSubnet2Subnet'', declRefs = [''VPC'']\<rparr>,
      \<lparr>declId = ''VPCPrivateSubnet3Subnet'', declRefs = [''VPC'']\<rparr>,
      \<lparr>declId = ''KubectlLayer'', declRefs = []\<rparr>,
      \<lparr>declId = ''Cluster'',
       declRefs = [''VPC'', ''VPCPrivateSubnet1Subnet'', ''VPCPrivateSubnet2Subnet'',
                   ''VPCPrivateSubnet3Subnet'']\<rparr>,
      \<lparr>declId = ''DefaultCapacityNodeGroupRole'', declRefs = []\<rparr>,
      \<lparr>declId = ''DefaultCapacity'',
       declRefs = [''Cluster'', ''DefaultCapacityNodeGroupRole'']\<rparr>,
      \<lparr>declId = ''AwsAuth'',
       declRefs = [''Cluster'', ''DefaultCapacityNodeGroupRole'',
                   ''ManagedNodeGroupNodeGroupRole'', ''PrometheusScraper'',
                   ''PrometheusScraper'']\<rparr>,
      \<lparr>declId = ''ManagedNodeGroupNodeGroupRole'', declRefs = []\<rparr>,
      \<lparr>declId = ''ManagedNodeGroup'',
       declRefs = [''Cluster'', ''ManagedNodeGroupNodeGroupRole'']\<rparr>,
      \<lparr>declId = ''PrometheusWorkspace'', declRefs = []\<rparr>,
      \<lparr>declId = ''PrometheusScraper'',
       declRefs = [''PrometheusWorkspace'', ''Cluster'', ''VPCPrivateSubnet1Subnet'',
                   ''VPCPrivateSubnet2Subnet'', ''VPCPrivateSubnet3Subnet'']\<rparr>,
      \<lparr>declId = ''ApsCollectorClusterRole'', declRefs = [''Cluster'']\<rparr>,
      \<lparr>declId = ''ApsCollectorClusterRoleBinding'', declRefs = [''Cluster'']\<rparr>,
      \<lparr>declId = ''GrafanaRole'', declRefs = []\<rparr>,
      \<lparr>declId = ''GrafanaWorkspace'', declRefs = [''GrafanaRole'']\<rparr>]"
  by code_simp

section \<open>The subnets handed to the scraper\<close>

lemma stack_private_subnets:
  "filter (\<lambda>s. subnetType s = PRIVATE_WITH_EGRESS) (subnets (vpc (AmpAndGrafanaStack inp)))
     = tierSubnets ''VPC'' ''Private'' PRIVATE_WITH_EGRESS (take 3 (availabilityZones inp))"
  by (simp add: stack_vpc filter_tierSubnets)

text \<open>On any network handle the scraper is given the ids of the subnets of that tier.\<close>

lemma createPromehtheusScraper_subnetIds:
  "subnetIds (eksConfiguration (source (scraperProps
       (fst (createPromehtheusScraper inp v c w log)))))
     = map subnetId (filter (\<lambda>s. subnetType s = PRIVATE_WITH_EGRESS) (subnets v))"
  by (simp add: createPromehtheusScraper_def new_CfnScraper_def selectSubnets_def Let_def)

text \<open>
  C4.  Whatever zones the environment has, the subnet identifiers in the scraper's source
  configuration are the identifiers of the network's private-with-egress subnets, in
  order: a subnet of the network has its identifier in the list exactly when it is of
  that tier, so no public subnet is included and no private one is left out; there is
  one identifier for each zone that the network spans (at most three).
\<close>

theorem scraper_subnetIds_private:
  "subnetIds (eksConfiguration (source (scraperProps (prometheusScraper (AmpAndGrafanaStack inp)))))
     = map subnetId (filter (\<lambda>s. subnetType s = PRIVATE_WITH_EGRESS)
                       (subnets (vpc (AmpAndGrafanaStack inp))))
   \<and> (\<forall>s \<in> set (subnets (vpc (AmpAndGrafanaStack inp))).
        (subnetId s \<in> set (subnetIds (eksConfiguration (source (scraperProps
                              (prometheusScraper (AmpAndGrafanaStack inp)))))))
        = (subnetType s = PRIVATE_WITH_EGRESS))
   \<and> length (subnetIds (eksConfiguration (source (scraperProps
                (prometheusScraper (AmpAndGrafanaStack inp))))))
       = min 3 (length (availabilityZones inp))"
proof -
  let ?st = "AmpAndGrafanaStack inp"
  let ?ids = "subnetIds (eksConfiguration (source (scraperProps (prometheusScraper ?st))))"
  let ?priv = "tierSubnets ''VPC'' ''Private'' PRIVATE_WITH_EGRESS
                 (take 3 (availabilityZones inp))"
  let ?pub = "tierSubnets ''VPC'' ''Public'' PUBLIC (take 3 (availabilityZones inp))"
  have ids: "?ids = map subnetId ?priv"
    by (simp add: stack_scraper_subnetIds selectSubnets_def stack_private_subnets)
  have 1: "?ids = map subnetId (filter (\<lambda>s. subnetType s = PRIVATE_WITH_EGRESS)
                                  (subnets (vpc ?st)))"
    by (simp add: ids stack_private_subnets)
  have 2: "(subnetId s \<in> set ?ids) = (subnetType s = PRIVATE_WITH_EGRESS)"
    if s: "s \<in> set (subnets (vpc ?st))" for s
  proof -
    from s have "s \<in> set ?pub \<or> s \<in> set ?priv" by (simp add: stack_vpc)
    then show ?thesis
    proof
      assume pub: "s \<in> set ?pub"
      then obtain rest where r: "subnetId s = Ref (''VPC'' @ ''Public'' @ rest)"
        using tierSubnets_id by blast
      have "subnetId s \<notin> set ?ids"
      proof
        assume "subnetId s \<in> set ?ids"
        then obtain p where p: "p \<in> set ?priv" "subnetId p = subnetId s"
          by (auto simp: ids)
        then obtain rest' where "subnetId p = Ref (''VPC'' @ ''Private'' @ rest')"
          using tierSubnets_id by blast
        with p r show False by simp
      qed
      moreover have "subnetType s = PUBLIC" using pub by (rule tierSubnets_type)
      ultimately show ?thesis by simp
    next
      assume priv: "s \<in> set ?priv"
      then have "subnetId s \<in> set ?ids" by (simp add: ids)
      moreover have "subnetType s = PRIVATE_WITH_EGRESS" using priv by (rule tierSubnets_type)
      ultimately show ?thesis by simp
    qed
  qed
  have 3: "length ?ids = min 3 (length (availabilityZones inp))"
    by (simp add: ids length_tierSubnets min.commute)
  from 1 2 3 show ?thesis by blast
qed

lemma decimal_digits [simp]:
  "decimal (Suc 0) = ''1''" "decimal (Suc (Suc 0)) = ''2''" "decimal (Suc (Suc (Suc 0))) = ''3''"
  by (simp_all add: decimal.simps)

theorem scraper_subnetIds_private_witness:
  "\<lparr>subnetId = Ref ''VPCPublicSubnet1Subnet'', subnetType = PUBLIC,
     availabilityZone = ''us-east-1a''\<rparr> \<in> set (subnets (vpc (AmpAndGrafanaStack inp0)))
   \<and> Ref ''VPCPublicSubnet1Subnet'' \<notin> set (subnetIds (eksConfiguration (source (scraperProps
                              (prometheusScraper (AmpAndGrafanaStack inp0))))))
   \<and> subnetIds (eksConfiguration (source (scraperProps
         (prometheusScraper (AmpAndGrafanaStack inp0)))))
       = [Ref ''VPCPrivateSubnet1Subnet'', Ref ''VPCPrivateSubnet2Subnet'',
          Ref ''VPCPrivateSubnet3Subnet'']"
  using scraper_subnetIds_private [of inp0]
  by (simp add: stack_vpc inp0_def tierSubnets_def)

section \<open>Cluster and node capacity\<close>

text \<open>
  C8.  For every input the cluster is constructed on the stack's network with its subnet
  selection restricted to the private-with-egress tier, with the log types API,
  authenticator and audit enabled and the two others (controller manager, scheduler)
  not, and with endpoint access both public and private.
\<close>

theorem cluster_props_fixed:
  "vpcSubnets (clusterProps (cluster (AmpAndGrafanaStack inp)))
     = [\<lparr>subnetType_sel = PRIVATE_WITH_EGRESS\<rparr>]
   \<and> clusterLogging (clusterProps (cluster (AmpAndGrafanaStack inp)))
     = [API, AUTHENTICATOR, AUDIT]
   \<and> CONTROLLER_MANAGER \<notin> set (clusterLogging (clusterProps (cluster (AmpAndGrafanaStack inp))))
   \<and> SCHEDULER \<notin> set (clusterLogging (clusterProps (cluster (AmpAndGrafanaStack inp))))
   \<and> endpointAccess (clusterProps (cluster (AmpAndGrafanaStack inp))) = PUBLIC_AND_PRIVATE
   \<and> cluster_vpc (clusterProps (cluster (AmpAndGrafanaStack inp))) = vpc (AmpAndGrafanaStack inp)"
  by (simp add: stack_cluster)

text \<open>
  C5, as the code has it.  For every input the cluster has two node groups, both of the
  single instance type m5.large and neither given a maximum size.  \<open>ManagedNodeGroup\<close>,
  the one the stack adds itself, is given the desired size 1 and is created with it.
  \<open>DefaultCapacity\<close>, which the cluster's constructor adds because the stack does not
  pass \<open>defaultCapacity\<close>, has minimum size 2 and is created with desired size 2.
\<close>

theorem cluster_nodegroups:
  "nodegroups (cluster (AmpAndGrafanaStack inp)) =
     [(''DefaultCapacity'',
       \<lparr>instanceTypes = [InstanceType_of M5 LARGE], desiredSize = None,
        minSize = Some 2, maxSize = None\<rparr>),
      (''ManagedNodeGroup'',
       \<lparr>instanceTypes = [InstanceType_of M5 LARGE], desiredSize = Some 1,
        minSize = None, maxSize = None\<rparr>)]
   \<and> map (\<lambda>g. (fst g, nodegroupDesiredSize (snd g)))
         (nodegroups (cluster (AmpAndGrafanaStack inp)))
     = [(''DefaultCapacity'', 2), (''ManagedNodeGroup'', 1)]"
  by (simp add: stack_cluster nodegroupDesiredSize_def)

text \<open>
  C5, as the spec states it, fails: the cluster built from \<open>inp0\<close> has a node group
  whose desired size is 2, not 1.
\<close>

theorem defaultCapacity_desired_two:
  "(''DefaultCapacity'',
    \<lparr>instanceTypes = [InstanceType_of M5 LARGE], desiredSize = None,
     minSize = Some 2, maxSize = None\<rparr>) \<in> set (nodegroups (cluster (AmpAndGrafanaStack inp0)))
   \<and> nodegroupDesiredSize
         \<lparr>instanceTypes = [InstanceType_of M5 LARGE], desiredSize = None,
          minSize = Some 2, maxSize = None\<rparr> \<noteq> 1"
  by (simp add: stack_cluster nodegroupDesiredSize_def)

section \<open>Access bindings\<close>

text \<open>
  C9.  For every input the cluster's identity mapping has three entries, two of them for
  the roles of the node groups.  Exactly one entry is for the role imported from the
  transformed scraper ARN, and exactly one is for the user \<open>aps-collector-user\<close>: it is
  the same entry, and it puts that user in the group \<open>system:masters\<close>.  The role
  binding, as applied, has that user as its only subject and refers to the cluster role
  \<open>aps-collector-role\<close>, whose rules, as applied, grant the verbs describe, get, list and
  watch and no other.  The group of the entry grants every verb (\<open>*\<close>), so the access of
  the scraper identity is not limited to that of the read-only role.
\<close>

theorem scraper_identity_entry:
  "filter (\<lambda>e. roleArn (fst e)
                  = modifiedArn (attrRoleArn (prometheusScraper (AmpAndGrafanaStack inp))))
          (awsAuth (cluster (AmpAndGrafanaStack inp)))
     = [(\<lparr>roleArn = modifiedArn (attrRoleArn (prometheusScraper (AmpAndGrafanaStack inp))),
          roleProps = None\<rparr>,
         \<lparr>username = ''aps-collector-user'', groups = [''system:masters'']\<rparr>)]
   \<and> filter (\<lambda>e. username (snd e) = ''aps-collector-user'')
          (awsAuth (cluster (AmpAndGrafanaStack inp)))
     = [(\<lparr>roleArn = modifiedArn (attrRoleArn (prometheusScraper (AmpAndGrafanaStack inp))),
          roleProps = None\<rparr>,
         \<lparr>username = ''aps-collector-user'', groups = [''system:masters'']\<rparr>)]
   \<and> length (awsAuth (cluster (AmpAndGrafanaStack inp))) = 3
   \<and> Option.bind (map_of (manifests (cluster (AmpAndGrafanaStack inp)))
                     ''ApsCollectorClusterRoleBinding'') (jget ''subjects'')
     = Some (JArr [JObj [(''kind'', JStr ''User''), (''name'', JStr ''aps-collector-user''),
                         (''apiGroup'', JStr ''rbac.authorization.k8s.io'')]])
   \<and> Option.bind (map_of (manifests (cluster (AmpAndGrafanaStack inp)))
                     ''ApsCollectorClusterRoleBinding'') (jget ''roleRef'')
     = Some (JObj [(''kind'', JStr ''ClusterRole''), (''name'', JStr ''aps-collector-role''),
                   (''apiGroup'', JStr ''rbac.authorization.k8s.io'')])
   \<and> Option.bind (Option.bind (map_of (manifests (cluster (AmpAndGrafanaStack inp)))
                                  ''ApsCollectorClusterRole'') (jget ''metadata''))
                   (jget ''name'')
     = Some (JStr ''aps-collector-role'')
   \<and> map_option (\<lambda>m. set (roleVerbs m))
        (map_of (manifests (cluster (AmpAndGrafanaStack inp))) ''ApsCollectorClusterRole'')
     = Some {''describe'', ''get'', ''list'', ''watch''}
   \<and> set (concat (map builtinGroupVerbs
         (concat (map (\<lambda>e. groups (snd e))
            (filter (\<lambda>e. username (snd e) = ''aps-collector-user'')
               (awsAuth (cluster (AmpAndGrafanaStack inp))))))))
     = {''*''}"
proof -
  let ?c = "cluster (AmpAndGrafanaStack inp)"
  let ?arn = "modifiedArn (attrRoleArn (prometheusScraper (AmpAndGrafanaStack inp)))"
  let ?entry = "(\<lparr>roleArn = ?arn, roleProps = None\<rparr>,
                 \<lparr>username = ''aps-collector-user'', groups = [''system:masters'']\<rparr>)"
  have arn: "?arn = FnJoin [] [FnSelect 0 (FnSplit CHR ''/'' (GetAtt ''PrometheusScraper'' ''RoleArn'')),
                Str ''/'', FnSelect 3 (FnSplit CHR ''/'' (GetAtt ''PrometheusScraper'' ''RoleArn''))]"
    by (simp add: stack_scraper_arn modifiedArn_unresolved)
  have a: "filter (\<lambda>e. roleArn (fst e) = ?arn) (awsAuth ?c) = [?entry]"
    by (simp add: stack_cluster arn)
  have b: "filter (\<lambda>e. username (snd e) = ''aps-collector-user'') (awsAuth ?c) = [?entry]"
    by (simp add: stack_cluster nodeMapping_def)
  have c: "length (awsAuth ?c) = 3"
    by (simp add: stack_cluster)
  have d: "Option.bind (map_of (manifests ?c) ''ApsCollectorClusterRoleBinding'')
             (jget ''subjects'')
     = Some (JArr [JObj [(''kind'', JStr ''User''), (''name'', JStr ''aps-collector-user''),
                         (''apiGroup'', JStr ''rbac.authorization.k8s.io'')]])"
    by (simp add: stack_cluster clusterRoleBindingManifest_def injectPruneLabel_def)
  have e: "Option.bind (map_of (manifests ?c) ''ApsCollectorClusterRoleBinding'')
             (jget ''roleRef'')
     = Some (JObj [(''kind'', JStr ''ClusterRole''), (''name'', JStr ''aps-collector-role''),
                   (''apiGroup'', JStr ''rbac.authorization.k8s.io'')])"
    by (simp add: stack_cluster clusterRoleBindingManifest_def injectPruneLabel_def)
  have f: "Option.bind (Option.bind (map_of (manifests ?c) ''ApsCollectorClusterRole'')
                          (jget ''metadata'')) (jget ''name'')
     = Some (JStr ''aps-collector-role'')"
    by (simp add: stack_cluster clusterRoleManifest_def injectPruneLabel_def)
  have "map_option roleVerbs (map_of (manifests ?c) ''ApsCollectorClusterRole'') =
          Some [''describe'', ''get'', ''list'', ''watch'', ''describe'', ''get'', ''list'',
                ''watch'', ''get'']"
    by (simp add: stack_cluster clusterRoleManifest_def injectPruneLabel_def roleVerbs_def)
  then obtain m where m: "map_of (manifests ?c) ''ApsCollectorClusterRole'' = Some m"
      and v: "roleVerbs m = [''describe'', ''get'', ''list'', ''watch'', ''describe'', ''get'',
                             ''list'', ''watch'', ''get'']"
    by auto
  have "set (roleVerbs m) = {''describe'', ''get'', ''list'', ''watch''}"
    unfolding v by (simp only: set_simps) blast
  with m have g: "map_option (\<lambda>m. set (roleVerbs m))
                    (map_of (manifests ?c) ''ApsCollectorClusterRole'')
                  = Some {''describe'', ''get'', ''list'', ''watch''}"
    by simp
  have h: "set (concat (map builtinGroupVerbs
             (concat (map (\<lambda>e. groups (snd e))
                (filter (\<lambda>e. username (snd e) = ''aps-collector-user'') (awsAuth ?c))))))
           = {''*''}"
    unfolding b by (simp add: builtinGroupVerbs_def)
  from a b c d e f g h show ?thesis by (intro conjI)
qed

subsection \<open>Ordering of the access bindings\<close>

lemma before_edge:
  "respectsEdges ds order \<Longrightarrow> \<lparr>declId = i, declRefs = rs\<rparr> \<in> set ds \<Longrightarrow> r \<in> set rs
     \<Longrightarrow> before r i order"
  by (fastforce simp: respectsEdges_def)

lemma before_after_prefix:
  assumes "\<forall>x \<in> set pre. x \<noteq> b" and "before a b fixed"
  shows "before a b (pre @ fixed)"
  using assms by (auto simp: before_def)

lemma declared_before:
  assumes "take 3 b \<noteq> ''VPC''"
    and "before a b
       [''KubectlLayer'', ''Cluster'', ''DefaultCapacityNodeGroupRole'', ''DefaultCapacity'',
        ''AwsAuth'', ''ManagedNodeGroupNodeGroupRole'', ''ManagedNodeGroup'',
        ''PrometheusWorkspace'', ''PrometheusScraper'', ''ApsCollectorClusterRole'',
        ''ApsCollectorClusterRoleBinding'', ''GrafanaRole'', ''GrafanaWorkspace'']"
  shows "before a b (map declId (declared (AmpAndGrafanaStack inp)))"
proof -
  have "take 3 x = ''VPC''" if "x \<in> set (map declId (snd (createVPC inp [])))" for x
    using that createVPC_log_ids [of _ inp] by fastforce
  with assms(1) have "\<forall>x \<in> set (map declId (snd (createVPC inp []))). x \<noteq> b"
    by blast
  then show ?thesis
    unfolding stack_declared_ids using assms(2) by (rule before_after_prefix)
qed

lemma manifest_refs:
  assumes "d \<in> set (declared (AmpAndGrafanaStack inp))"
    and "declId d = ''ApsCollectorClusterRole'' \<or> declId d = ''ApsCollectorClusterRoleBinding''"
  shows "''PrometheusScraper'' \<notin> set (declRefs d)"
proof -
  let ?P = "\<lambda>d. declId d = ''ApsCollectorClusterRole''
                \<or> declId d = ''ApsCollectorClusterRoleBinding''
              \<longrightarrow> ''PrometheusScraper'' \<notin> set (declRefs d)"
  have "?P d" if "d \<in> set (snd (createVPC inp []))" for d
    using createVPC_log_ids [OF that] by auto
  then have pre: "list_all ?P (snd (createVPC inp []))"
    by (simp add: list_all_iff)
  have "list_all ?P (declared (AmpAndGrafanaStack inp))"
    unfolding stack_declared list_all_append
    using pre by simp
  with assms show ?thesis
    unfolding list_all_iff by blast
qed

text \<open>
  C7, as the code has it.  In every order of creation that respects the declared edges,
  each of the three access bindings comes after the cluster, and the identity mapping
  also after the scraper, whose role ARN it mentions.  In the constructor's own order
  the cluster-role and role-binding manifests are declared after the cluster and after
  the scraper, while the identity-mapping resource is declared after the cluster but
  before the scraper: it exists since the node groups registered their roles.  The two
  manifests do not refer to the scraper: no edge ties them to it.
\<close>

theorem access_bindings_edges:
  assumes "respectsEdges (declared (AmpAndGrafanaStack inp)) order"
  shows "(\<forall>b \<in> {''ApsCollectorClusterRole'', ''ApsCollectorClusterRoleBinding'', ''AwsAuth''}.
            before ''Cluster'' b order)
       \<and> before ''PrometheusScraper'' ''AwsAuth'' order
       \<and> (\<forall>b \<in> {''ApsCollectorClusterRole'', ''ApsCollectorClusterRoleBinding''}.
            before ''Cluster'' b (map declId (declared (AmpAndGrafanaStack inp)))
          \<and> before ''PrometheusScraper'' b (map declId (declared (AmpAndGrafanaStack inp))))
       \<and> before ''Cluster'' ''AwsAuth'' (map declId (declared (AmpAndGrafanaStack inp)))
       \<and> before ''AwsAuth'' ''PrometheusScraper''
            (map declId (declared (AmpAndGrafanaStack inp)))
       \<and> (\<forall>d \<in> set (declared (AmpAndGrafanaStack inp)).
            declId d = ''ApsCollectorClusterRole'' \<or> declId d = ''ApsCollectorClusterRoleBinding''
            \<longrightarrow> ''PrometheusScraper'' \<notin> set (declRefs d))"
proof -
  let ?ds = "declared (AmpAndGrafanaStack inp)"
  have m1: "\<lparr>declId = ''ApsCollectorClusterRole'', declRefs = [''Cluster'']\<rparr> \<in> set ?ds"
    and m2: "\<lparr>declId = ''ApsCollectorClusterRoleBinding'', declRefs = [''Cluster'']\<rparr> \<in> set ?ds"
    and m3: "\<lparr>declId = ''AwsAuth'',
              declRefs = [''Cluster'', ''DefaultCapacityNodeGroupRole'',
                          ''ManagedNodeGroupNodeGroupRole'', ''PrometheusScraper'',
                          ''PrometheusScraper'']\<rparr> \<in> set ?ds"
    by (simp_all add: stack_declared)
  have e1: "before ''Cluster'' ''ApsCollectorClusterRole'' order"
    by (rule before_edge [OF assms m1]) simp
  have e2: "before ''Cluster'' ''ApsCollectorClusterRoleBinding'' order"
    by (rule before_edge [OF assms m2]) simp
  have e3: "before ''Cluster'' ''AwsAuth'' order"
    by (rule before_edge [OF assms m3]) simp
  have e4: "before ''PrometheusScraper'' ''AwsAuth'' order"
    by (rule before_edge [OF assms m3]) simp
  have d1: "before ''Cluster'' ''ApsCollectorClusterRole'' (map declId ?ds)"
    and d2: "before ''Cluster'' ''ApsCollectorClusterRoleBinding'' (map declId ?ds)"
    and d3: "before ''PrometheusScraper'' ''ApsCollectorClusterRole'' (map declId ?ds)"
    and d4: "before ''PrometheusScraper'' ''ApsCollectorClusterRoleBinding'' (map declId ?ds)"
    and d5: "before ''Cluster'' ''AwsAuth'' (map declId ?ds)"
    and d6: "before ''AwsAuth'' ''PrometheusScraper'' (map declId ?ds)"
    by (rule declared_before; code_simp)+
  show ?thesis
    using e1 e2 e3 e4 d1 d2 d3 d4 d5 d6 manifest_refs [of _ inp] by auto
qed

theorem access_bindings_edges_witness:
  "respectsEdges (declared (AmpAndGrafanaStack inp0)) schedule1
   \<and> before ''Cluster'' ''ApsCollectorClusterRole'' schedule1
   \<and> before ''PrometheusScraper'' ''AwsAuth'' schedule1
   \<and> before ''AwsAuth'' ''PrometheusScraper''
        (map declId (declared (AmpAndGrafanaStack inp0)))"
proof -
  have h: "respectsEdges (declared (AmpAndGrafanaStack inp0)) schedule1"
    by code_simp
  show ?thesis
    using h access_bindings_edges [OF h] by simp
qed

text \<open>
  C7, as the spec states it, fails: \<open>schedule0\<close> respects every declared edge of the
  stack built from \<open>inp0\<close>, and in it both manifests are created while the scraper does
  not exist yet.
\<close>

theorem manifests_before_scraper_schedule:
  "respectsEdges (declared (AmpAndGrafanaStack inp0)) schedule0
   \<and> \<not> before ''PrometheusScraper'' ''ApsCollectorClusterRole'' schedule0
   \<and> \<not> before ''PrometheusScraper'' ''ApsCollectorClusterRoleBinding'' schedule0"
  by code_simp

section \<open>The dashboard workspace's execution role\<close>

text \<open>
  C1, as the code has it.  For every input the role whose ARN the dashboard workspace is
  given has exactly one managed policy attached, the provider's
  \<open>AmazonPrometheusFullAccess\<close>: a policy of the metrics service, granting full access.
\<close>

theorem grafanaRole_managedPolicies:
  "map_option managedPolicies (roleProps (grafanaRole (AmpAndGrafanaStack inp)))
     = Some [fromAwsManagedPolicyName ''AmazonPrometheusFullAccess'']
   \<and> roleArn_ws (grafanaProps (grafanaWorkspace (AmpAndGrafanaStack inp)))
     = roleArn (grafanaRole (AmpAndGrafanaStack inp))"
  by (simp add: stack_grafanaRole stack_grafanaWorkspace)

text \<open>
  C1, as the spec states it, fails: the managed policies of the role are not the
  read-access policy of the metrics service.
\<close>

theorem grafanaRole_not_read_policy:
  "map_option managedPolicies (roleProps (grafanaRole (AmpAndGrafanaStack inp0)))
     \<noteq> Some [spec_metricsReadPolicy]"
  by (simp add: stack_grafanaRole spec_metricsReadPolicy_def fromAwsManagedPolicyName_def)

text \<open>
  C10.  For every input the role whose ARN the dashboard workspace is given is created
  to be assumed by the service principal \<open>grafana.amazonaws.com\<close>, and its trust policy
  is the single statement allowing that principal, and no other, to assume the role.
\<close>

theorem grafanaRole_trust:
  "map_option assumedBy (roleProps (grafanaRole (AmpAndGrafanaStack inp)))
     = Some (ServicePrincipal ''grafana.amazonaws.com'')
   \<and> assumeRolePolicy (grafanaRole (AmpAndGrafanaStack inp)) =
       [\<lparr>effect = Allow, actions = [''sts:AssumeRole''],
         principals = [ServicePrincipal ''grafana.amazonaws.com'']\<rparr>]
   \<and> roleArn_ws (grafanaProps (grafanaWorkspace (AmpAndGrafanaStack inp)))
     = roleArn (grafanaRole (AmpAndGrafanaStack inp))"
  by (simp add: stack_grafanaRole stack_grafanaWorkspace assumeRolePolicy_def)

end
